theory Spec2Isabelle
  imports Main
begin

section \<open>The warning and recommendation engine (warningEngine.js)\<close>

text \<open>
  The engine reads three tables of the schema \<open>consolidations\<close> through \<open>pool.query\<close> and
  decides the next disciplinary action (Cases A to E). The model keeps the tables as lists
  of rows, the SQL \<open>WHERE\<close> clauses as predicates on a row, and a rejected query as the
  left injection of a sum.

  Dates held in the tables are day numbers (the schema declares its date columns as
  \<open>DATE\<close>), so \<open>INTERVAL '7 days'\<close> is the number 7 and \<open>CURRENT_DATE\<close> is a parameter.
  A nullable column is an \<open>option\<close>; a comparison with \<open>NULL\<close> is not true in a
  \<open>WHERE\<close> clause, so such a row is not selected.
\<close>

subsection \<open>Tables\<close>

type_synonym date = int

record warning_row =
  warning_id :: nat
  agent_email :: "string option"
  metric_type :: "string option"
  status :: "string option"
  warning_type :: "string option"
  issue_date :: "date option"
  expiration_date :: "date option"

record action_row =
  log_agent_email :: "string option"
  action_date :: "date option"

record report_row =
  leader_email :: "string option"
  is_active :: "bool option"
  issued_date :: "date option"
  expires_date :: "date option"

text \<open>A row of the caller's \<open>weeksData\<close>: the two performance flags and the week's start.\<close>

record week_row =
  flag_qa :: "string option"
  flag_prod :: "string option"
  start_date :: "date option"

text \<open>
  The connection pool: the three tables, and \<open>query_error\<close>, which is \<open>Some e\<close> when
  \<open>pool.query\<close> rejects with \<open>e\<close> (store unreachable, failed query).
\<close>

record pool =
  warnings :: "warning_row list"
  action_log :: "action_row list"
  leadership_reports :: "report_row list"
  query_error :: "string option"

subsection \<open>Reading the active warnings\<close>

text \<open>
  The \<open>WHERE\<close> clause of \<open>getActiveWarnings\<close>:
  \<^verbatim>\<open>agent_email = $1 AND metric_type = $2 AND status = 'Active'
  AND (expiration_date IS NULL OR expiration_date >= CURRENT_DATE)\<close>
\<close>

definition active_where :: "date \<Rightarrow> string \<Rightarrow> string \<Rightarrow> warning_row \<Rightarrow> bool" where
  "active_where current_date agentEmail metricType w =
     (agent_email w = Some agentEmail \<and> metric_type w = Some metricType
      \<and> status w = Some ''Active''
      \<and> (case expiration_date w of None \<Rightarrow> True | Some d \<Rightarrow> current_date \<le> d))"

text \<open>
  \<open>ORDER BY issue_date DESC\<close>: later dates first, \<open>NULL\<close> before every date (the
  default of a descending order). SQL leaves the order of rows with equal dates open; the
  model keeps the order of the table.
\<close>

definition issue_date_desc :: "warning_row \<Rightarrow> warning_row \<Rightarrow> bool" where
  "issue_date_desc w x =
     (case issue_date w of
        None \<Rightarrow> True
      | Some a \<Rightarrow> (case issue_date x of None \<Rightarrow> False | Some b \<Rightarrow> b \<le> a))"

fun insert_issue_date_desc :: "warning_row \<Rightarrow> warning_row list \<Rightarrow> warning_row list" where
  "insert_issue_date_desc w [] = [w]"
| "insert_issue_date_desc w (x # xs) =
     (if issue_date_desc w x then w # x # xs else x # insert_issue_date_desc w xs)"

definition order_by_issue_date_desc :: "warning_row list \<Rightarrow> warning_row list" where
  "order_by_issue_date_desc rows = foldr insert_issue_date_desc rows []"

definition getActiveWarnings ::
  "pool \<Rightarrow> date \<Rightarrow> string \<Rightarrow> string \<Rightarrow> string + warning_row list" where
  "getActiveWarnings p current_date agentEmail metricType =
     (case query_error p of
        Some e \<Rightarrow> Inl e
      | None \<Rightarrow>
          Inr (order_by_issue_date_desc
                 (filter (active_where current_date agentEmail metricType) (warnings p))))"

definition countWarningsByType :: "warning_row list \<Rightarrow> string \<Rightarrow> nat" where
  "countWarningsByType ws warningType =
     length (filter (\<lambda>w. warning_type w = Some warningType) ws)"

subsection \<open>Case evaluators of the agent ladder\<close>

text \<open>
  The object an evaluator returns. A property the object does not have is \<open>None\<close>;
  \<open>case_type\<close> is the property \<open>case\<close>.
\<close>

record result =
  case_type :: "string option"
  applies :: bool
  recommendation :: "string option"
  priority :: "string option"
  details :: "string option"
  leaderEmail :: "string option"
  agentEmail :: "string option"
  metricType :: "string option"
  weekStartDate :: "string option"
  weekEndDate :: "string option"

text \<open>The object \<^verbatim>\<open>{ applies: false }\<close>.\<close>

definition not_applicable :: result where
  "not_applicable =
     \<lparr>case_type = None, applies = False, recommendation = None, priority = None,
      details = None, leaderEmail = None, agentEmail = None, metricType = None,
      weekStartDate = None, weekEndDate = None\<rparr>"

definition evaluateCaseA :: "warning_row list \<Rightarrow> result" where
  "evaluateCaseA ws =
     (let verbalWarnings = countWarningsByType ws ''Verbal'' in
      if verbalWarnings = 1 then
        not_applicable
          \<lparr>case_type := Some ''A'', applies := True,
           recommendation := Some ''Second Verbal Warning + Coaching/Reinforcement'',
           priority := Some ''Medium'',
           details := Some ''Agent has 1 verbal warning and is underperforming again. Issue second verbal warning and provide coaching.''\<rparr>
      else not_applicable)"

definition evaluateCaseB :: "warning_row list \<Rightarrow> result" where
  "evaluateCaseB ws =
     (let verbalWarnings = countWarningsByType ws ''Verbal'' in
      if 2 \<le> verbalWarnings then
        not_applicable
          \<lparr>case_type := Some ''B'', applies := True,
           recommendation := Some ''Written Warning - Substandard Work'',
           priority := Some ''High'',
           details := Some ''Agent has 2 verbal warnings and is still underperforming. Issue formal written warning for substandard work.''\<rparr>
      else not_applicable)"

definition evaluateCaseC :: "warning_row list \<Rightarrow> result" where
  "evaluateCaseC ws =
     (let writtenWarnings = countWarningsByType ws ''Written'' in
      if 2 \<le> writtenWarnings then
        not_applicable
          \<lparr>case_type := Some ''C'', applies := True,
           recommendation := Some ''Prepare Employee Offboarding'',
           priority := Some ''Critical'',
           details := Some ''Agent has 2 written warnings and continues to underperform. Agent is at risk. Prepare for offboarding process.''\<rparr>
      else not_applicable)"

subsection \<open>The resolver\<close>

text \<open>The four assignments that attach the request's data to the result that applies.\<close>

definition attach :: "string \<Rightarrow> string \<Rightarrow> string \<Rightarrow> string \<Rightarrow> result \<Rightarrow> result" where
  "attach agent metric weekStart weekEnd r =
     r\<lparr>agentEmail := Some agent, metricType := Some metric,
       weekStartDate := Some weekStart, weekEndDate := Some weekEnd\<rparr>"

definition generateRecommendation ::
  "pool \<Rightarrow> date \<Rightarrow> string \<Rightarrow> string \<Rightarrow> string \<Rightarrow> string \<Rightarrow> string + result" where
  "generateRecommendation p current_date agent metric weekStart weekEnd =
     (case getActiveWarnings p current_date agent metric of
        Inl e \<Rightarrow> Inl e
      | Inr ws \<Rightarrow>
          (let r = evaluateCaseC ws in
           if applies r then Inr (attach agent metric weekStart weekEnd r)
           else
             let r = evaluateCaseB ws in
             if applies r then Inr (attach agent metric weekStart weekEnd r)
             else
               let r = evaluateCaseA ws in
               if applies r then Inr (attach agent metric weekStart weekEnd r)
               else
                 Inr \<lparr>case_type = Some ''First'', applies = True,
                      recommendation = Some ''First Verbal Warning'',
                      priority = Some ''Low'',
                      details = Some ''Agent is underperforming for the first time. Issue first verbal warning.'',
                      leaderEmail = None,
                      agentEmail = Some agent, metricType = Some metric,
                      weekStartDate = Some weekStart, weekEndDate = Some weekEnd\<rparr>))"

subsection \<open>Leadership accountability: Cases D and E\<close>

text \<open>
  PostgreSQL checks the types of a statement before it runs it, and the driver sends the
  parameter \<open>$2\<close> of \<open>checkLeaderAction\<close> without a type. In
  \<^verbatim>\<open>$2 - INTERVAL '7 days'\<close> and \<^verbatim>\<open>$2 + INTERVAL '7 days'\<close> an operand of unknown type takes
  the type of the other operand, so \<open>$2\<close> is read as an interval and each bound is an
  interval. No operator compares a date or a timestamp with an interval, so the statement
  is rejected (error 42883, operator does not exist) before any row is read.
\<close>

datatype sql_type = Sql_date | Sql_timestamp | Sql_interval | Sql_unknown

definition operand_type :: "sql_type \<Rightarrow> sql_type \<Rightarrow> sql_type" where
  "operand_type t other = (if t = Sql_unknown then other else t)"

text \<open>The type of a sum or difference, for the operand types that occur in the statement.\<close>

definition additive_type :: "sql_type \<Rightarrow> sql_type \<Rightarrow> sql_type option" where
  "additive_type a b =
     (let l = operand_type a b; r = operand_type b a in
      if l = Sql_interval \<and> r = Sql_interval then Some Sql_interval
      else if (l = Sql_date \<or> l = Sql_timestamp) \<and> r = Sql_interval then Some Sql_timestamp
      else None)"

definition comparison_exists :: "sql_type \<Rightarrow> sql_type \<Rightarrow> bool" where
  "comparison_exists a b =
     ((a = Sql_date \<or> a = Sql_timestamp) \<and> (b = Sql_date \<or> b = Sql_timestamp)
      \<or> a = Sql_interval \<and> b = Sql_interval)"

text \<open>
  The type check of \<^verbatim>\<open>column >= $2 - INTERVAL '7 days'\<close> for a column of the given type:
  the error it raises, if any.
\<close>

definition window_type_error :: "sql_type \<Rightarrow> string option" where
  "window_type_error column =
     (case additive_type Sql_unknown Sql_interval of
        None \<Rightarrow> Some ''operator does not exist: unknown - interval''
      | Some bound \<Rightarrow>
          if comparison_exists column bound then None
          else if column = Sql_date then Some ''operator does not exist: date >= interval''
          else Some ''operator does not exist: timestamp without time zone >= interval'')"

text \<open>
  The two counts of \<open>checkLeaderAction\<close>, which a statement that passed the type check
  would give. Each \<open>WHERE\<close> clause is
  \<^verbatim>\<open>agent_email = $1 AND date >= $2 - INTERVAL '7 days' AND date <= $2 + INTERVAL '7 days'\<close>;
  with a \<open>NULL\<close> date on either side no row is counted.
\<close>

definition within_7_days :: "date option \<Rightarrow> date option \<Rightarrow> bool" where
  "within_7_days d weekStart =
     (case weekStart of
        None \<Rightarrow> False
      | Some s \<Rightarrow> (case d of None \<Rightarrow> False | Some x \<Rightarrow> s - 7 \<le> x \<and> x \<le> s + 7))"

definition checkLeaderAction :: "pool \<Rightarrow> string \<Rightarrow> date option \<Rightarrow> string + bool" where
  "checkLeaderAction p agent weekStart =
     (case query_error p of
        Some e \<Rightarrow> Inl e
      | None \<Rightarrow>
          (case window_type_error Sql_date of
             Some e \<Rightarrow> Inl e
           | None \<Rightarrow>
               (let action_count =
                      length (filter (\<lambda>w. agent_email w = Some agent
                                \<and> within_7_days (issue_date w) weekStart) (warnings p))
                    + length (filter (\<lambda>a. log_agent_email a = Some agent
                                \<and> within_7_days (action_date a) weekStart) (action_log p))
                in Inr (0 < action_count))))"

text \<open>Decimal digits of a number, for the template string of Case D.\<close>

fun string_of_nat :: "nat \<Rightarrow> string" where
  "string_of_nat n =
     (if n < 10 then [''0123456789'' ! n]
      else string_of_nat (n div 10) @ [''0123456789'' ! (n mod 10)])"

declare string_of_nat.simps [simp del]

definition underperforming :: "week_row \<Rightarrow> bool" where
  "underperforming w =
     (flag_qa w = Some ''Low'' \<or> flag_qa w = Some ''Critical''
      \<or> flag_prod w = Some ''Low'' \<or> flag_prod w = Some ''Critical'')"

definition evaluateCaseD :: "pool \<Rightarrow> string \<Rightarrow> string \<Rightarrow> week_row list \<Rightarrow> string + result" where
  "evaluateCaseD p agent leader weeksData =
     (let underperformingWeeks = filter underperforming weeksData in
      if length underperformingWeeks \<le> 2 then Inr not_applicable
      else
        (case underperformingWeeks of
           [] \<Rightarrow> Inl ''TypeError''
         | first # others \<Rightarrow>
             (case checkLeaderAction p agent (start_date first) of
                Inl e \<Rightarrow> Inl e
              | Inr hasActions \<Rightarrow>
                  if \<not> hasActions then
                    Inr (not_applicable
                      \<lparr>case_type := Some ''D'', applies := True,
                       recommendation := Some ''Leadership Behavior Report + Verbal Warning for Leader'',
                       priority := Some ''High'',
                       details := Some (''Agent has been underperforming for ''
                          @ string_of_nat (length underperformingWeeks)
                          @ '' weeks with no documented actions from direct leader. Issue leadership behavior report.''),
                       leaderEmail := Some leader\<rparr>)
                  else Inr not_applicable)))"

text \<open>
  The \<open>WHERE\<close> clause of \<open>evaluateCaseE\<close>:
  \<^verbatim>\<open>leader_email = $1 AND is_active = true
  AND (expires_date IS NULL OR expires_date >= CURRENT_DATE)\<close>
\<close>

definition report_where :: "date \<Rightarrow> string \<Rightarrow> report_row \<Rightarrow> bool" where
  "report_where current_date leader r =
     (leader_email r = Some leader \<and> is_active r = Some True
      \<and> (case expires_date r of None \<Rightarrow> True | Some d \<Rightarrow> current_date \<le> d))"

definition evaluateCaseE :: "pool \<Rightarrow> date \<Rightarrow> string \<Rightarrow> string + result" where
  "evaluateCaseE p current_date leader =
     (case query_error p of
        Some e \<Rightarrow> Inl e
      | None \<Rightarrow>
          (let reports = filter (report_where current_date leader) (leadership_reports p) in
           if 1 \<le> length reports then
             Inr (not_applicable
               \<lparr>case_type := Some ''E'', applies := True,
                recommendation := Some ''Second Leadership Behavior Report + Written Warning for Leader'',
                priority := Some ''Critical'',
                details := Some ''Leader has failed to follow procedures again within warning period. Issue written warning.'',
                leaderEmail := Some leader\<rparr>)
           else Inr not_applicable))"

subsection \<open>Recording a warning\<close>

text \<open>
  Here times are JavaScript times, milliseconds since the epoch. What a lookup in the
  object \<open>WARNING_EXPIRATION\<close> gives: a number of days, \<open>null\<close>, \<open>undefined\<close> for a
  missing key, or a member inherited from \<open>Object.prototype\<close> (a function or an object).
\<close>

datatype js_value = Days int | Null | Undefined | Inherited

definition object_prototype_names :: "string list" where
  "object_prototype_names =
     [''constructor'', ''hasOwnProperty'', ''isPrototypeOf'', ''propertyIsEnumerable'',
      ''toLocaleString'', ''toString'', ''valueOf'', ''__defineGetter__'',
      ''__defineSetter__'', ''__lookupGetter__'', ''__lookupSetter__'', ''__proto__'']"

definition WARNING_EXPIRATION :: "string \<Rightarrow> js_value" where
  "WARNING_EXPIRATION k =
     (if k = ''Verbal'' then Days 90
      else if k = ''Written'' then Days 180
      else if k = ''Coaching'' then Null
      else if k \<in> set object_prototype_names then Inherited
      else Undefined)"

text \<open>A \<open>Date\<close> object: a time, or the invalid date that \<open>new Date(NaN)\<close> gives.\<close>

datatype js_date = Date int | Invalid_Date

text \<open>The fields of \<open>warningData\<close> that decide the level and the two dates.\<close>

record warningData =
  wd_agentEmail :: string
  wd_actionLogId :: "nat option"
  wd_warningType :: "string option"
  wd_issuedDate :: "js_date option"

text \<open>The parameters of the \<open>INSERT\<close> that these fields decide (\<open>$1\<close> to \<open>$7\<close>).\<close>

record insert_values =
  ins_agent_email :: string
  ins_action_log_id :: "nat option"
  ins_warning_level :: nat
  ins_issue_date :: js_date
  ins_expiration_date :: "js_date option"
  ins_status :: string
  ins_warning_type :: "string option"

definition warningLevel :: "string option \<Rightarrow> nat" where
  "warningLevel t =
     (if t = Some ''Written'' then 2 else if t = Some ''Coaching'' then 0 else 1)"

text \<open>
  \<open>expiresDate\<close>: the condition is true for a non-empty type whose table entry is
  neither \<open>null\<close>, \<open>undefined\<close> nor 0; the date counts from \<open>Date.now()\<close>.
\<close>

definition expiresDate :: "int \<Rightarrow> string option \<Rightarrow> js_date option" where
  "expiresDate date_now t =
     (case t of
        None \<Rightarrow> None
      | Some k \<Rightarrow>
          if k = [] then None
          else
            (case WARNING_EXPIRATION k of
               Days n \<Rightarrow> if n = 0 then None else Some (Date (date_now + n * 24 * 60 * 60 * 1000))
             | Null \<Rightarrow> None
             | Undefined \<Rightarrow> None
             | Inherited \<Rightarrow> Some Invalid_Date))"

text \<open>
  \<open>recordWarning\<close> reads the clock twice: \<open>Date.now()\<close> for the expiration and
  \<open>new Date()\<close> for a missing issue date. The model returns the parameters of the
  \<open>INSERT\<close>; the identifier that the store generates is left out.
\<close>

definition recordWarning :: "pool \<Rightarrow> int \<Rightarrow> int \<Rightarrow> warningData \<Rightarrow> string + insert_values" where
  "recordWarning p date_now new_date wd =
     (let level = warningLevel (wd_warningType wd);
          expires = expiresDate date_now (wd_warningType wd);
          vals = \<lparr>ins_agent_email = wd_agentEmail wd,
                  ins_action_log_id =
                    (case wd_actionLogId wd of None \<Rightarrow> None
                     | Some i \<Rightarrow> if i = 0 then None else Some i),
                  ins_warning_level = level,
                  ins_issue_date =
                    (case wd_issuedDate wd of None \<Rightarrow> Date new_date | Some d \<Rightarrow> d),
                  ins_expiration_date = expires,
                  ins_status = ''Active'',
                  ins_warning_type = wd_warningType wd\<rparr>
      in case query_error p of Some e \<Rightarrow> Inl e | None \<Rightarrow> Inr vals)"

subsection \<open>Auxiliary definitions for the statements\<close>

text \<open>The object literal of the fallback in \<open>generateRecommendation\<close>.\<close>

definition first_result :: "string \<Rightarrow> string \<Rightarrow> string \<Rightarrow> string \<Rightarrow> result" where
  "first_result agent metric weekStart weekEnd =
     \<lparr>case_type = Some ''First'', applies = True,
      recommendation = Some ''First Verbal Warning'',
      priority = Some ''Low'',
      details = Some ''Agent is underperforming for the first time. Issue first verbal warning.'',
      leaderEmail = None,
      agentEmail = Some agent, metricType = Some metric,
      weekStartDate = Some weekStart, weekEndDate = Some weekEnd\<rparr>"

text \<open>Example rows and stores, for one agent and the metric QA, issued on day 100.\<close>

definition example_warning :: "nat \<Rightarrow> string \<Rightarrow> string \<Rightarrow> date option \<Rightarrow> warning_row" where
  "example_warning i kind st expires =
     \<lparr>warning_id = i, agent_email = Some ''agent@onq.global'', metric_type = Some ''QA'',
      status = Some st, warning_type = Some kind, issue_date = Some 100,
      expiration_date = expires\<rparr>"

definition example_pool :: "warning_row list \<Rightarrow> pool" where
  "example_pool ws =
     \<lparr>warnings = ws, action_log = [], leadership_reports = [], query_error = None\<rparr>"

definition two_verbal :: "warning_row list" where
  "two_verbal =
     [example_warning 1 ''Verbal'' ''Active'' (Some 190),
      example_warning 2 ''Verbal'' ''Active'' None]"

definition two_written_three_verbal :: "warning_row list" where
  "two_written_three_verbal =
     [example_warning 1 ''Written'' ''Active'' (Some 190),
      example_warning 2 ''Verbal'' ''Active'' None,
      example_warning 3 ''Verbal'' ''Active'' None,
      example_warning 4 ''Written'' ''Active'' None,
      example_warning 5 ''Verbal'' ''Active'' (Some 150)]"

definition three_verbal :: "warning_row list" where
  "three_verbal =
     [example_warning 1 ''Verbal'' ''Active'' (Some 190),
      example_warning 2 ''Verbal'' ''Active'' None,
      example_warning 3 ''Verbal'' ''Active'' (Some 150)]"

definition one_verbal :: "warning_row list" where
  "one_verbal = [example_warning 1 ''Verbal'' ''Active'' (Some 190)]"

definition one_written :: "warning_row list" where
  "one_written = [example_warning 1 ''Written'' ''Active'' (Some 280)]"

definition five_expired_written :: "warning_row list" where
  "five_expired_written =
     [example_warning 1 ''Written'' ''Active'' (Some 149),
      example_warning 2 ''Written'' ''Active'' (Some 120),
      example_warning 3 ''Written'' ''Active'' (Some 0),
      example_warning 4 ''Written'' ''Expired'' (Some 149),
      example_warning 5 ''Written'' ''Active'' (Some 101)]"

text \<open>Example weeks: the first underperforming week starts on day 100.\<close>

definition example_week :: "string option \<Rightarrow> string option \<Rightarrow> date \<Rightarrow> week_row" where
  "example_week fq fp start = \<lparr>flag_qa = fq, flag_prod = fp, start_date = Some start\<rparr>"

definition example_weeks :: "week_row list" where
  "example_weeks =
     [example_week (Some ''Normal'') (Some ''Normal'') 93,
      example_week (Some ''Low'') None 100,
      example_week None (Some ''Critical'') 107,
      example_week (Some ''Critical'') (Some ''Low'') 114]"

definition action_pool :: "warning_row list \<Rightarrow> action_row list \<Rightarrow> pool" where
  "action_pool ws acts =
     \<lparr>warnings = ws, action_log = acts, leadership_reports = [], query_error = None\<rparr>"





definition example_report :: "bool \<Rightarrow> date option \<Rightarrow> report_row" where
  "example_report act expires =
     \<lparr>leader_email = Some ''leader@onq.global'', is_active = Some act,
      issued_date = Some 100, expires_date = expires\<rparr>"

definition report_pool :: "report_row list \<Rightarrow> pool" where
  "report_pool rs =
     \<lparr>warnings = [], action_log = [], leadership_reports = rs, query_error = None\<rparr>"

text \<open>
  A Verbal warning recorded on 2025-06-01 (time 1748736000000) with the issue date
  2025-01-01 (time 1735689600000) supplied by the caller.
\<close>

definition backdated_verbal :: warningData where
  "backdated_verbal =
     \<lparr>wd_agentEmail = ''agent@onq.global'', wd_actionLogId = None,
      wd_warningType = Some ''Verbal'', wd_issuedDate = Some (Date 1735689600000)\<rparr>"

section \<open>Properties\<close>

subsection \<open>Helper facts\<close>

lemma length_filter_insert_issue_date_desc:
  "length (filter P (insert_issue_date_desc w xs)) = length (filter P (w # xs))"
  by (induction xs) auto

lemma length_filter_order_by_issue_date_desc:
  "length (filter P (order_by_issue_date_desc xs)) = length (filter P xs)"
  unfolding order_by_issue_date_desc_def
  by (induction xs) (auto simp: length_filter_insert_issue_date_desc)

lemma set_insert_issue_date_desc:
  "set (insert_issue_date_desc w xs) = insert w (set xs)"
  by (induction xs) auto

lemma set_order_by_issue_date_desc: "set (order_by_issue_date_desc xs) = set xs"
  unfolding order_by_issue_date_desc_def
  by (induction xs) (auto simp: set_insert_issue_date_desc)

lemma evaluateCaseC_applies: "applies (evaluateCaseC ws) = (2 \<le> countWarningsByType ws ''Written'')"
  by (simp add: evaluateCaseC_def not_applicable_def Let_def)

lemma evaluateCaseB_applies: "applies (evaluateCaseB ws) = (2 \<le> countWarningsByType ws ''Verbal'')"
  by (simp add: evaluateCaseB_def not_applicable_def Let_def)

lemma evaluateCaseA_applies: "applies (evaluateCaseA ws) = (countWarningsByType ws ''Verbal'' = 1)"
  by (simp add: evaluateCaseA_def not_applicable_def Let_def)


lemmas example_defs = example_warning_def example_pool_def getActiveWarnings_def
  active_where_def order_by_issue_date_desc_def issue_date_desc_def countWarningsByType_def

text \<open>The ladder of \<open>generateRecommendation\<close>, by the two counts.\<close>

lemma generateRecommendation_ladder:
  assumes "getActiveWarnings p today agent metric = Inr ws"
  shows "generateRecommendation p today agent metric weekStart weekEnd =
     Inr (if 2 \<le> countWarningsByType ws ''Written''
          then attach agent metric weekStart weekEnd (evaluateCaseC ws)
          else if 2 \<le> countWarningsByType ws ''Verbal''
          then attach agent metric weekStart weekEnd (evaluateCaseB ws)
          else if countWarningsByType ws ''Verbal'' = 1
          then attach agent metric weekStart weekEnd (evaluateCaseA ws)
          else first_result agent metric weekStart weekEnd)"
  using assms
  by (simp add: generateRecommendation_def Let_def evaluateCaseC_applies
      evaluateCaseB_applies evaluateCaseA_applies first_result_def)

lemma attach_sel:
  "case_type (attach a m s e r) = case_type r"
  "applies (attach a m s e r) = applies r"
  "priority (attach a m s e r) = priority r"
  "recommendation (attach a m s e r) = recommendation r"
  by (simp_all add: attach_def)

lemma evaluateCaseC_payload:
  "2 \<le> countWarningsByType ws ''Written'' \<Longrightarrow>
   case_type (evaluateCaseC ws) = Some ''C'' \<and> priority (evaluateCaseC ws) = Some ''Critical''"
  by (simp add: evaluateCaseC_def not_applicable_def Let_def)

lemma evaluateCaseB_payload:
  "2 \<le> countWarningsByType ws ''Verbal'' \<Longrightarrow>
   case_type (evaluateCaseB ws) = Some ''B'' \<and> priority (evaluateCaseB ws) = Some ''High''"
  by (simp add: evaluateCaseB_def not_applicable_def Let_def)

lemma evaluateCaseA_payload:
  "countWarningsByType ws ''Verbal'' = 1 \<Longrightarrow>
   case_type (evaluateCaseA ws) = Some ''A'' \<and> priority (evaluateCaseA ws) = Some ''Medium''"
  by (simp add: evaluateCaseA_def not_applicable_def Let_def)

lemma first_result_sel:
  "case_type (first_result a m s e) = Some ''First''"
  "priority (first_result a m s e) = Some ''Low''"
  "applies (first_result a m s e)"
  by (simp_all add: first_result_def)

subsection \<open>The agent ladder\<close>

text \<open>
  C1. Whenever the read of the active warnings succeeds with a list \<open>ws\<close>,
  \<open>generateRecommendation\<close> returns one result, it applies, and its case is one of A, B,
  C and First. The case is decided by trying the evaluators in the order C, B, A: it is C
  exactly when Case C applies, B exactly when C does not apply and B does, A exactly when
  neither C nor B applies and A does, and First exactly when none of the three applies.
\<close>

theorem generateRecommendation_exactly_one:
  assumes "getActiveWarnings p today agent metric = Inr ws"
  shows "\<exists>r. generateRecommendation p today agent metric weekStart weekEnd = Inr r
     \<and> applies r
     \<and> case_type r \<in> {Some ''A'', Some ''B'', Some ''C'', Some ''First''}
     \<and> (case_type r = Some ''C'' \<longleftrightarrow> applies (evaluateCaseC ws))
     \<and> (case_type r = Some ''B'' \<longleftrightarrow>
          \<not> applies (evaluateCaseC ws) \<and> applies (evaluateCaseB ws))
     \<and> (case_type r = Some ''A'' \<longleftrightarrow>
          \<not> applies (evaluateCaseC ws) \<and> \<not> applies (evaluateCaseB ws)
          \<and> applies (evaluateCaseA ws))
     \<and> (case_type r = Some ''First'' \<longleftrightarrow>
          \<not> applies (evaluateCaseC ws) \<and> \<not> applies (evaluateCaseB ws)
          \<and> \<not> applies (evaluateCaseA ws))"
proof -
  let ?w = "countWarningsByType ws ''Written''"
  let ?v = "countWarningsByType ws ''Verbal''"
  note ladder = generateRecommendation_ladder [OF assms, of weekStart weekEnd]
  note app = evaluateCaseC_applies evaluateCaseB_applies evaluateCaseA_applies
  consider (C) "2 \<le> ?w" | (B) "?w < 2" "2 \<le> ?v" | (A) "?w < 2" "?v = 1"
    | (F) "?w < 2" "?v = 0"
    by linarith
  then show ?thesis
  proof cases
    case C
    then show ?thesis
      using ladder evaluateCaseC_payload [of ws] by (simp add: attach_sel app)
  next
    case B
    then show ?thesis
      using ladder evaluateCaseB_payload [of ws] by (simp add: attach_sel app)
  next
    case A
    then show ?thesis
      using ladder evaluateCaseA_payload [of ws] by (simp add: attach_sel app)
  next
    case F
    then show ?thesis
      using ladder by (simp add: first_result_sel app)
  qed
qed

theorem generateRecommendation_exactly_one_witness:
  "getActiveWarnings (example_pool two_verbal) 150 ''agent@onq.global'' ''QA''
     = Inr two_verbal
   \<and> (\<exists>r. generateRecommendation (example_pool two_verbal) 150 ''agent@onq.global''
             ''QA'' ''2025-06-02'' ''2025-06-08'' = Inr r
        \<and> case_type r = Some ''B'')"
proof -
  have h: "getActiveWarnings (example_pool two_verbal) 150 ''agent@onq.global'' ''QA''
             = Inr two_verbal"
    by (simp add: two_verbal_def example_defs)
  have c: "\<not> applies (evaluateCaseC two_verbal)" "applies (evaluateCaseB two_verbal)"
    by (simp_all add: evaluateCaseC_applies evaluateCaseB_applies two_verbal_def example_defs)
  from generateRecommendation_exactly_one [OF h, of "''2025-06-02''" "''2025-06-08''"] c h
  show ?thesis by blast
qed

text \<open>
  C2. When the list of active warnings holds at least 2 Written warnings, the result is
  case C with priority Critical, whatever the number of Verbal warnings in the list.
\<close>

theorem caseC_dominates:
  assumes "getActiveWarnings p today agent metric = Inr ws"
    and "2 \<le> countWarningsByType ws ''Written''"
  shows "\<exists>r. generateRecommendation p today agent metric weekStart weekEnd = Inr r
     \<and> case_type r = Some ''C'' \<and> priority r = Some ''Critical''"
  using generateRecommendation_ladder [OF assms(1), of weekStart weekEnd]
    evaluateCaseC_payload [OF assms(2)] assms(2)
  by (simp add: attach_sel)

theorem caseC_dominates_witness:
  "getActiveWarnings (example_pool two_written_three_verbal) 150 ''agent@onq.global'' ''QA''
     = Inr two_written_three_verbal
   \<and> countWarningsByType two_written_three_verbal ''Written'' = 2
   \<and> countWarningsByType two_written_three_verbal ''Verbal'' = 3
   \<and> (\<exists>r. generateRecommendation (example_pool two_written_three_verbal) 150
             ''agent@onq.global'' ''QA'' ''2025-06-02'' ''2025-06-08'' = Inr r
        \<and> case_type r = Some ''C'' \<and> priority r = Some ''Critical'')"
proof -
  have h: "getActiveWarnings (example_pool two_written_three_verbal) 150
             ''agent@onq.global'' ''QA'' = Inr two_written_three_verbal"
    by (simp add: two_written_three_verbal_def example_defs)
  have w: "countWarningsByType two_written_three_verbal ''Written'' = 2"
    by (simp add: two_written_three_verbal_def example_defs)
  have v: "countWarningsByType two_written_three_verbal ''Verbal'' = 3"
    by (simp add: two_written_three_verbal_def example_defs)
  from w have c: "2 \<le> countWarningsByType two_written_three_verbal ''Written''"
    by simp
  from caseC_dominates [OF h c, of "''2025-06-02''" "''2025-06-08''"] h w v
  show ?thesis by blast
qed

text \<open>
  C3. When the list of active warnings holds at least 2 Verbal and fewer than 2 Written
  warnings, the result is case B with priority High. The same holds for every other read
  with at least as many Verbal warnings and the same number of Written ones: more active
  Verbal warnings never give a case below B.
\<close>

theorem caseB_from_two_verbal:
  assumes "getActiveWarnings p today agent metric = Inr ws"
    and "2 \<le> countWarningsByType ws ''Verbal''"
    and "countWarningsByType ws ''Written'' < 2"
  shows "(\<exists>r. generateRecommendation p today agent metric weekStart weekEnd = Inr r
           \<and> case_type r = Some ''B'' \<and> priority r = Some ''High'')
     \<and> (\<forall>p' ws'. getActiveWarnings p' today agent metric = Inr ws'
            \<and> countWarningsByType ws ''Verbal'' \<le> countWarningsByType ws' ''Verbal''
            \<and> countWarningsByType ws' ''Written'' = countWarningsByType ws ''Written''
          \<longrightarrow> (\<exists>r'. generateRecommendation p' today agent metric weekStart weekEnd = Inr r'
                 \<and> case_type r' = Some ''B'' \<and> priority r' = Some ''High''))"
proof -
  have B: "\<exists>r. generateRecommendation q today agent metric weekStart weekEnd = Inr r
           \<and> case_type r = Some ''B'' \<and> priority r = Some ''High''"
    if "getActiveWarnings q today agent metric = Inr xs"
      and "2 \<le> countWarningsByType xs ''Verbal''"
      and "countWarningsByType xs ''Written'' < 2" for q xs
    using generateRecommendation_ladder [OF that(1), of weekStart weekEnd]
      evaluateCaseB_payload [OF that(2)] that(2,3)
    by (simp add: attach_sel)
  show ?thesis
  proof (intro conjI allI impI)
    show "\<exists>r. generateRecommendation p today agent metric weekStart weekEnd = Inr r
           \<and> case_type r = Some ''B'' \<and> priority r = Some ''High''"
      using B [OF assms] .
  next
    fix p' ws'
    assume h: "getActiveWarnings p' today agent metric = Inr ws'
            \<and> countWarningsByType ws ''Verbal'' \<le> countWarningsByType ws' ''Verbal''
            \<and> countWarningsByType ws' ''Written'' = countWarningsByType ws ''Written''"
    then have "2 \<le> countWarningsByType ws' ''Verbal''"
      and "countWarningsByType ws' ''Written'' < 2"
      using assms(2,3) by simp_all
    with h show "\<exists>r'. generateRecommendation p' today agent metric weekStart weekEnd = Inr r'
                 \<and> case_type r' = Some ''B'' \<and> priority r' = Some ''High''"
      using B by blast
  qed
qed

theorem caseB_from_two_verbal_witness:
  "getActiveWarnings (example_pool two_verbal) 150 ''agent@onq.global'' ''QA'' = Inr two_verbal
   \<and> countWarningsByType two_verbal ''Verbal'' = 2
   \<and> countWarningsByType two_verbal ''Written'' = 0
   \<and> getActiveWarnings (example_pool three_verbal) 150 ''agent@onq.global'' ''QA''
       = Inr three_verbal
   \<and> countWarningsByType three_verbal ''Verbal'' = 3
   \<and> countWarningsByType three_verbal ''Written'' = 0
   \<and> (\<exists>r. generateRecommendation (example_pool two_verbal) 150 ''agent@onq.global''
             ''QA'' ''2025-06-02'' ''2025-06-08'' = Inr r
        \<and> case_type r = Some ''B'' \<and> priority r = Some ''High'')
   \<and> (\<exists>r. generateRecommendation (example_pool three_verbal) 150 ''agent@onq.global''
             ''QA'' ''2025-06-02'' ''2025-06-08'' = Inr r
        \<and> case_type r = Some ''B'' \<and> priority r = Some ''High'')"
proof -
  have h2: "getActiveWarnings (example_pool two_verbal) 150 ''agent@onq.global'' ''QA''
             = Inr two_verbal"
    by (simp add: two_verbal_def example_defs)
  have h3: "getActiveWarnings (example_pool three_verbal) 150 ''agent@onq.global'' ''QA''
             = Inr three_verbal"
    by (simp add: three_verbal_def example_defs)
  have c2: "countWarningsByType two_verbal ''Verbal'' = 2"
    "countWarningsByType two_verbal ''Written'' = 0"
    by (simp_all add: two_verbal_def example_defs)
  have c3: "countWarningsByType three_verbal ''Verbal'' = 3"
    "countWarningsByType three_verbal ''Written'' = 0"
    by (simp_all add: three_verbal_def example_defs)
  have a: "2 \<le> countWarningsByType two_verbal ''Verbal''"
    "countWarningsByType two_verbal ''Written'' < 2"
    using c2 by simp_all
  have m: "getActiveWarnings (example_pool three_verbal) 150 ''agent@onq.global'' ''QA''
             = Inr three_verbal
      \<and> countWarningsByType two_verbal ''Verbal'' \<le> countWarningsByType three_verbal ''Verbal''
      \<and> countWarningsByType three_verbal ''Written'' = countWarningsByType two_verbal ''Written''"
    using h3 c2 c3 by simp
  from caseB_from_two_verbal [OF h2 a, of "''2025-06-02''" "''2025-06-08''"] m h2 h3 c2 c3
  show ?thesis by blast
qed

text \<open>
  C4. When the list of active warnings holds exactly 1 Verbal and no Written warning, the
  result is case A with priority Medium; and Case A applies to a list exactly when its
  number of Verbal warnings equals 1.
\<close>

theorem caseA_exactly_one_verbal:
  assumes "getActiveWarnings p today agent metric = Inr ws"
    and "countWarningsByType ws ''Verbal'' = 1"
    and "countWarningsByType ws ''Written'' = 0"
  shows "(\<exists>r. generateRecommendation p today agent metric weekStart weekEnd = Inr r
           \<and> case_type r = Some ''A'' \<and> priority r = Some ''Medium'')
     \<and> (\<forall>xs. applies (evaluateCaseA xs) \<longleftrightarrow> countWarningsByType xs ''Verbal'' = 1)"
  using generateRecommendation_ladder [OF assms(1), of weekStart weekEnd]
    evaluateCaseA_payload [OF assms(2)] assms(2,3)
  by (simp add: attach_sel evaluateCaseA_applies)

theorem caseA_exactly_one_verbal_witness:
  "getActiveWarnings (example_pool one_verbal) 150 ''agent@onq.global'' ''QA'' = Inr one_verbal
   \<and> countWarningsByType one_verbal ''Verbal'' = 1
   \<and> countWarningsByType one_verbal ''Written'' = 0
   \<and> (\<exists>r. generateRecommendation (example_pool one_verbal) 150 ''agent@onq.global''
             ''QA'' ''2025-06-02'' ''2025-06-08'' = Inr r
        \<and> case_type r = Some ''A'' \<and> priority r = Some ''Medium'')"
proof -
  have h: "getActiveWarnings (example_pool one_verbal) 150 ''agent@onq.global'' ''QA''
             = Inr one_verbal"
    by (simp add: one_verbal_def example_defs)
  have c: "countWarningsByType one_verbal ''Verbal'' = 1"
    "countWarningsByType one_verbal ''Written'' = 0"
    by (simp_all add: one_verbal_def example_defs)
  from caseA_exactly_one_verbal [OF h c, of "''2025-06-02''" "''2025-06-08''"] h c
  show ?thesis by blast
qed

text \<open>
  C10. When the list of active warnings holds no Verbal and exactly 1 Written warning,
  none of the Cases A, B and C applies and the result is the fallback First with priority
  Low.
\<close>

theorem single_written_falls_to_first:
  assumes "getActiveWarnings p today agent metric = Inr ws"
    and "countWarningsByType ws ''Verbal'' = 0"
    and "countWarningsByType ws ''Written'' = 1"
  shows "\<exists>r. generateRecommendation p today agent metric weekStart weekEnd = Inr r
           \<and> case_type r = Some ''First'' \<and> priority r = Some ''Low''
           \<and> \<not> applies (evaluateCaseA ws) \<and> \<not> applies (evaluateCaseB ws)
           \<and> \<not> applies (evaluateCaseC ws)"
  using generateRecommendation_ladder [OF assms(1), of weekStart weekEnd] assms(2,3)
  by (simp add: first_result_sel evaluateCaseA_applies evaluateCaseB_applies
      evaluateCaseC_applies)

theorem single_written_falls_to_first_witness:
  "getActiveWarnings (example_pool one_written) 150 ''agent@onq.global'' ''QA'' = Inr one_written
   \<and> countWarningsByType one_written ''Verbal'' = 0
   \<and> countWarningsByType one_written ''Written'' = 1
   \<and> (\<exists>r. generateRecommendation (example_pool one_written) 150 ''agent@onq.global''
             ''QA'' ''2025-06-02'' ''2025-06-08'' = Inr r
        \<and> case_type r = Some ''First'' \<and> priority r = Some ''Low'')"
proof -
  have h: "getActiveWarnings (example_pool one_written) 150 ''agent@onq.global'' ''QA''
             = Inr one_written"
    by (simp add: one_written_def example_defs)
  have c: "countWarningsByType one_written ''Verbal'' = 0"
    "countWarningsByType one_written ''Written'' = 1"
    by (simp_all add: one_written_def example_defs)
  from single_written_falls_to_first [OF h c, of "''2025-06-02''" "''2025-06-08''"] h c
  show ?thesis by blast
qed

subsection \<open>The read of the active warnings\<close>

lemma active_where_iff:
  "active_where today agent metric w \<longleftrightarrow>
     agent_email w = Some agent \<and> metric_type w = Some metric \<and> status w = Some ''Active''
     \<and> (expiration_date w = None \<or> (\<exists>d. expiration_date w = Some d \<and> today \<le> d))"
  by (auto simp: active_where_def split: option.splits)

text \<open>
  C5. When the query succeeds, the list that \<open>getActiveWarnings\<close> returns holds exactly
  the rows of the agent and metric whose status is Active and whose expiration date is
  null or not before the evaluation date, and the number of rows of a kind in it is the
  number of such rows of that kind in the table. So when every row of the table is
  inactive or expired (as with 5 expired Written warnings), the result is case First.
\<close>

theorem active_read_filter:
  assumes "query_error p = None"
  shows "\<exists>ws. getActiveWarnings p today agent metric = Inr ws
     \<and> set ws = {w \<in> set (warnings p).
          agent_email w = Some agent \<and> metric_type w = Some metric
          \<and> status w = Some ''Active''
          \<and> (expiration_date w = None \<or> (\<exists>d. expiration_date w = Some d \<and> today \<le> d))}
     \<and> (\<forall>kind. countWarningsByType ws kind =
          length (filter (\<lambda>w. agent_email w = Some agent \<and> metric_type w = Some metric
             \<and> status w = Some ''Active''
             \<and> (expiration_date w = None \<or> (\<exists>d. expiration_date w = Some d \<and> today \<le> d))
             \<and> warning_type w = Some kind) (warnings p)))
     \<and> ((\<forall>w \<in> set (warnings p).
            status w \<noteq> Some ''Active'' \<or> (\<exists>d. expiration_date w = Some d \<and> d < today))
         \<longrightarrow> (\<exists>r. generateRecommendation p today agent metric weekStart weekEnd = Inr r
                \<and> case_type r = Some ''First''))"
proof -
  let ?ws = "order_by_issue_date_desc (filter (active_where today agent metric) (warnings p))"
  have read: "getActiveWarnings p today agent metric = Inr ?ws"
    using assms by (simp add: getActiveWarnings_def)
  have members: "set ?ws = {w \<in> set (warnings p).
          agent_email w = Some agent \<and> metric_type w = Some metric
          \<and> status w = Some ''Active''
          \<and> (expiration_date w = None \<or> (\<exists>d. expiration_date w = Some d \<and> today \<le> d))}"
    by (auto simp: set_order_by_issue_date_desc active_where_iff)
  have counts: "countWarningsByType ?ws kind =
          length (filter (\<lambda>w. agent_email w = Some agent \<and> metric_type w = Some metric
             \<and> status w = Some ''Active''
             \<and> (expiration_date w = None \<or> (\<exists>d. expiration_date w = Some d \<and> today \<le> d))
             \<and> warning_type w = Some kind) (warnings p))" for kind
    unfolding countWarningsByType_def length_filter_order_by_issue_date_desc filter_filter
    by (rule arg_cong [where f = length], rule filter_cong) (auto simp: active_where_iff)
  have expired: "\<exists>r. generateRecommendation p today agent metric weekStart weekEnd = Inr r
                \<and> case_type r = Some ''First''"
    if all: "\<forall>w \<in> set (warnings p).
            status w \<noteq> Some ''Active'' \<or> (\<exists>d. expiration_date w = Some d \<and> d < today)"
  proof -
    have "filter (active_where today agent metric) (warnings p) = []"
      unfolding filter_empty_conv using all by (auto simp: active_where_iff)
    then have "?ws = []"
      by (simp add: order_by_issue_date_desc_def)
    then have "countWarningsByType ?ws ''Written'' = 0" "countWarningsByType ?ws ''Verbal'' = 0"
      by (simp_all add: countWarningsByType_def)
    then show ?thesis
      using generateRecommendation_ladder [OF read, of weekStart weekEnd]
      by (simp add: first_result_sel)
  qed
  from read members counts expired show ?thesis by blast
qed

theorem active_read_filter_witness:
  "query_error (example_pool five_expired_written) = None
   \<and> length (filter (\<lambda>w. warning_type w = Some ''Written'')
        (warnings (example_pool five_expired_written))) = 5
   \<and> getActiveWarnings (example_pool five_expired_written) 150 ''agent@onq.global'' ''QA''
       = Inr []
   \<and> (\<exists>r. generateRecommendation (example_pool five_expired_written) 150
             ''agent@onq.global'' ''QA'' ''2025-06-02'' ''2025-06-08'' = Inr r
        \<and> case_type r = Some ''First'')"
proof -
  have q: "query_error (example_pool five_expired_written) = None"
    by (simp add: example_pool_def)
  have e: "\<forall>w \<in> set (warnings (example_pool five_expired_written)).
        status w \<noteq> Some ''Active'' \<or> (\<exists>d. expiration_date w = Some d \<and> d < 150)"
    by (simp add: five_expired_written_def example_pool_def example_warning_def)
  have n: "length (filter (\<lambda>w. warning_type w = Some ''Written'')
        (warnings (example_pool five_expired_written))) = 5"
    by (simp add: five_expired_written_def example_pool_def example_warning_def)
  have g: "getActiveWarnings (example_pool five_expired_written) 150 ''agent@onq.global'' ''QA''
       = Inr []"
    by (simp add: five_expired_written_def example_defs)
  from active_read_filter [OF q, of 150 "''agent@onq.global''" "''QA''"
      "''2025-06-02''" "''2025-06-08''"] e
  have "\<exists>r. generateRecommendation (example_pool five_expired_written) 150
             ''agent@onq.global'' ''QA'' ''2025-06-02'' ''2025-06-08'' = Inr r
        \<and> case_type r = Some ''First''"
    by blast
  with q e n g show ?thesis by blast
qed

subsection \<open>Leadership accountability\<close>

lemma window_type_error_date:
  "window_type_error Sql_date = Some ''operator does not exist: date >= interval''"
  by (simp add: window_type_error_def additive_type_def operand_type_def
      comparison_exists_def Let_def)

lemma window_type_error_timestamp:
  "window_type_error Sql_timestamp
     = Some ''operator does not exist: timestamp without time zone >= interval''"
  by (simp add: window_type_error_def additive_type_def operand_type_def
      comparison_exists_def Let_def)

text \<open>\<open>checkLeaderAction\<close> rejects on every call, whatever the tables hold.\<close>

lemma checkLeaderAction_rejects:
  "checkLeaderAction p agent w =
     Inl (case query_error p of
            Some e \<Rightarrow> e
          | None \<Rightarrow> ''operator does not exist: date >= interval'')"
  by (simp add: checkLeaderAction_def window_type_error_date split: option.splits)

text \<open>
  So \<open>evaluateCaseD\<close> answers "does not apply" for at most 2 underperforming weeks,
  rejects for more, and never returns Case D.
\<close>

lemma evaluateCaseD_result:
  "evaluateCaseD p agent leader weeksData =
     (if length (filter underperforming weeksData) \<le> 2 then Inr not_applicable
      else Inl (case query_error p of
                  Some e \<Rightarrow> e
                | None \<Rightarrow> ''operator does not exist: date >= interval''))"
proof (cases "filter underperforming weeksData")
  case Nil
  then show ?thesis
    by (simp add: evaluateCaseD_def Let_def)
next
  case (Cons first others)
  then show ?thesis
    by (simp add: evaluateCaseD_def Let_def checkLeaderAction_rejects)
qed



text \<open>
  C6. Case D should apply when more than 2 weeks underperform and no warning and no
  action-log entry of the agent lies within 7 days of the first of them. For the three
  underperforming weeks of \<open>example_weeks\<close> and a store that holds no warning and no
  action at all, \<open>evaluateCaseD\<close> does not return Case D: the statement of
  \<open>checkLeaderAction\<close> does not pass the type check, and \<open>evaluateCaseD\<close> rejects with
  that error.
\<close>

theorem evaluateCaseD_rejects_three_weeks:
  "length (filter underperforming example_weeks) = 3
   \<and> warnings (action_pool [] []) = []
   \<and> action_log (action_pool [] []) = []
   \<and> query_error (action_pool [] []) = None
   \<and> evaluateCaseD (action_pool [] []) ''agent@onq.global'' ''leader@onq.global''
        example_weeks
      = Inl ''operator does not exist: date >= interval''"
proof -
  have n: "length (filter underperforming example_weeks) = 3"
    by (simp add: example_weeks_def example_week_def underperforming_def)
  have "evaluateCaseD (action_pool [] []) ''agent@onq.global'' ''leader@onq.global''
          example_weeks
        = Inl ''operator does not exist: date >= interval''"
    unfolding evaluateCaseD_result n by (simp add: action_pool_def)
  with n show ?thesis
    by (simp add: action_pool_def)
qed

lemma report_where_iff:
  "report_where today leader x \<longleftrightarrow>
     leader_email x = Some leader \<and> is_active x = Some True
     \<and> (expires_date x = None \<or> (\<exists>d. expires_date x = Some d \<and> today \<le> d))"
  by (auto simp: report_where_def split: option.splits)

lemma evaluateCaseE_applies:
  assumes "query_error p = None"
    and "1 \<le> length (filter (report_where today leader) (leadership_reports p))"
  shows "evaluateCaseE p today leader =
     Inr (not_applicable
               \<lparr>case_type := Some ''E'', applies := True,
                recommendation := Some ''Second Leadership Behavior Report + Written Warning for Leader'',
                priority := Some ''Critical'',
                details := Some ''Leader has failed to follow procedures again within warning period. Issue written warning.'',
                leaderEmail := Some leader\<rparr>)"
  using assms by (simp add: evaluateCaseE_def Let_def)

lemma evaluateCaseE_not_applies:
  assumes "query_error p = None"
    and "length (filter (report_where today leader) (leadership_reports p)) = 0"
  shows "evaluateCaseE p today leader = Inr not_applicable"
  using assms by (simp add: evaluateCaseE_def Let_def)

text \<open>
  C7. When the query succeeds, Case E applies exactly when the leader has at least one
  report that is active and whose expiration date is null or not before the evaluation
  date. When it applies, the result is case E, the second report with a written warning,
  priority Critical, and it is the same result for every store and date with at least one
  such report, whatever their number.
\<close>

theorem evaluateCaseE_iff:
  assumes "query_error p = None"
  shows "\<exists>r. evaluateCaseE p today leader = Inr r
     \<and> (applies r \<longleftrightarrow>
          (\<exists>x \<in> set (leadership_reports p).
             leader_email x = Some leader \<and> is_active x = Some True
             \<and> (expires_date x = None \<or> (\<exists>d. expires_date x = Some d \<and> today \<le> d))))
     \<and> (applies r \<longrightarrow>
           case_type r = Some ''E'' \<and> priority r = Some ''Critical''
           \<and> recommendation r
               = Some ''Second Leadership Behavior Report + Written Warning for Leader''
           \<and> (\<forall>p' today'. query_error p' = None
                 \<and> 1 \<le> length (filter (\<lambda>x. leader_email x = Some leader
                        \<and> is_active x = Some True
                        \<and> (expires_date x = None
                            \<or> (\<exists>d. expires_date x = Some d \<and> today' \<le> d)))
                      (leadership_reports p'))
               \<longrightarrow> evaluateCaseE p' today' leader = Inr r))"
proof -
  let ?n = "length (filter (report_where today leader) (leadership_reports p))"
  have rw: "report_where t leader =
      (\<lambda>x. leader_email x = Some leader \<and> is_active x = Some True
            \<and> (expires_date x = None \<or> (\<exists>d. expires_date x = Some d \<and> t \<le> d)))" for t
    by (simp add: fun_eq_iff report_where_iff)
  have ex: "(\<exists>x \<in> set (leadership_reports p). report_where today leader x) \<longleftrightarrow> 1 \<le> ?n"
    by (simp add: Suc_le_eq filter_empty_conv)
  show ?thesis
  proof (cases "1 \<le> ?n")
    case True
    show ?thesis
      unfolding rw [symmetric]
      using evaluateCaseE_applies [OF assms True] evaluateCaseE_applies [of _ _ leader] ex True
      by (simp add: not_applicable_def)
  next
    case False
    then have "?n = 0" by (simp add: not_less_eq_eq)
    from evaluateCaseE_not_applies [OF assms this] ex False
    show ?thesis
      unfolding rw [symmetric] by (simp add: not_applicable_def)
  qed
qed

theorem evaluateCaseE_iff_witness:
  "query_error (report_pool [example_report True (Some 150), example_report False None,
                             example_report True None, example_report True (Some 149)]) = None
   \<and> query_error (report_pool [example_report True (Some 400)]) = None
   \<and> (\<exists>r. evaluateCaseE (report_pool [example_report True (Some 150),
               example_report False None, example_report True None,
               example_report True (Some 149)]) 150 ''leader@onq.global'' = Inr r
          \<and> evaluateCaseE (report_pool [example_report True (Some 400)]) 300
               ''leader@onq.global'' = Inr r
          \<and> applies r \<and> case_type r = Some ''E'' \<and> priority r = Some ''Critical'')"
proof -
  let ?p = "report_pool [example_report True (Some 150), example_report False None,
                         example_report True None, example_report True (Some 149)]"
  let ?q = "report_pool [example_report True (Some 400)]"
  have q: "query_error ?p = None" "query_error ?q = None"
    by (simp_all add: report_pool_def)
  have n: "1 \<le> length (filter (\<lambda>x. leader_email x = Some ''leader@onq.global''
                        \<and> is_active x = Some True
                        \<and> (expires_date x = None
                            \<or> (\<exists>d. expires_date x = Some d \<and> 300 \<le> d)))
                      (leadership_reports ?q))"
    by (simp add: report_pool_def example_report_def)
  have e: "\<exists>x \<in> set (leadership_reports ?p).
             leader_email x = Some ''leader@onq.global'' \<and> is_active x = Some True
             \<and> (expires_date x = None \<or> (\<exists>d. expires_date x = Some d \<and> 150 \<le> d))"
    by (simp add: report_pool_def example_report_def)
  from evaluateCaseE_iff [OF q(1), of 150 "''leader@onq.global''"] e q(2) n
  have "\<exists>r. evaluateCaseE ?p 150 ''leader@onq.global'' = Inr r
          \<and> evaluateCaseE ?q 300 ''leader@onq.global'' = Inr r
          \<and> applies r \<and> case_type r = Some ''E'' \<and> priority r = Some ''Critical''"
    by blast
  with q show ?thesis by blast
qed

subsection \<open>Recording a warning\<close>

text \<open>
  What \<open>recordWarning\<close> passes to the \<open>INSERT\<close>: the issue date is the caller's when
  there is one and the clock's otherwise, and the expiration date always counts from the
  clock.
\<close>

lemma recordWarning_dates:
  assumes "query_error p = None"
  shows "\<exists>v. recordWarning p date_now new_date wd = Inr v
     \<and> ins_status v = ''Active''
     \<and> ins_issue_date v = (case wd_issuedDate wd of None \<Rightarrow> Date new_date | Some d \<Rightarrow> d)
     \<and> (wd_warningType wd = Some ''Verbal'' \<longrightarrow>
          ins_expiration_date v = Some (Date (date_now + 90 * 86400000)))
     \<and> (wd_warningType wd = Some ''Written'' \<longrightarrow>
          ins_expiration_date v = Some (Date (date_now + 180 * 86400000)))
     \<and> (wd_warningType wd = Some ''Coaching'' \<longrightarrow> ins_expiration_date v = None)"
  using assms
  by (simp add: recordWarning_def Let_def expiresDate_def WARNING_EXPIRATION_def)

text \<open>
  C8. The expiration date should be the issue date plus the duration of the kind, also
  for an issue date that the caller supplies. For the Verbal warning \<open>backdated_verbal\<close>,
  issued 2025-01-01 and recorded 2025-06-01, \<open>recordWarning\<close> passes the issue date
  2025-01-01 and the expiration date 2025-08-30 (time 1756512000000), which is 90 days
  after the clock and not 90 days after the issue date (2025-04-01).
\<close>

theorem recordWarning_backdated_expiration:
  "recordWarning (example_pool []) 1748736000000 1748736000000 backdated_verbal
     = Inr \<lparr>ins_agent_email = ''agent@onq.global'', ins_action_log_id = None,
            ins_warning_level = 1, ins_issue_date = Date 1735689600000,
            ins_expiration_date = Some (Date 1756512000000), ins_status = ''Active'',
            ins_warning_type = Some ''Verbal''\<rparr>
   \<and> Date 1756512000000 \<noteq> Date (1735689600000 + 90 * 24 * 60 * 60 * 1000)
   \<and> Date 1756512000000 = Date (1748736000000 + 90 * 24 * 60 * 60 * 1000)"
  by (simp add: recordWarning_def Let_def expiresDate_def WARNING_EXPIRATION_def
      warningLevel_def backdated_verbal_def example_pool_def)

subsection \<open>No ambiguous-state result\<close>





end
